theory Spec2Isabelle
  imports Main "HOL-Library.Word"
begin

unbundle bit_operations_syntax

section \<open>Library functions the package calls\<close>

type_synonym byte = "8 word"
type_synonym u32 = "32 word"

subsection \<open>crypto/sha256\<close>

text \<open>
  \<^verbatim>\<open>sha256.New()\<close>, \<^verbatim>\<open>io.Copy(h, f)\<close> and \<^verbatim>\<open>h.Sum(nil)\<close> of the Go standard library
  compute the SHA-256 digest of the bytes of the file. The digest is the function of
  FIPS 180-4: the message is padded to a multiple of 64 bytes, and each 64-byte block
  updates eight 32-bit words through 64 rounds. Go's \<^verbatim>\<open>uint32\<close> is \<^typ>\<open>u32\<close>:
  addition wraps.
\<close>

definition rotr :: "nat \<Rightarrow> u32 \<Rightarrow> u32" where
  "rotr n x = drop_bit n x OR push_bit (32 - n) x"

definition Ch :: "u32 \<Rightarrow> u32 \<Rightarrow> u32 \<Rightarrow> u32" where
  "Ch x y z = (x AND y) XOR (NOT x AND z)"

definition Maj :: "u32 \<Rightarrow> u32 \<Rightarrow> u32 \<Rightarrow> u32" where
  "Maj x y z = (x AND y) XOR (x AND z) XOR (y AND z)"

definition bsig0 :: "u32 \<Rightarrow> u32" where
  "bsig0 x = rotr 2 x XOR rotr 13 x XOR rotr 22 x"

definition bsig1 :: "u32 \<Rightarrow> u32" where
  "bsig1 x = rotr 6 x XOR rotr 11 x XOR rotr 25 x"

definition ssig0 :: "u32 \<Rightarrow> u32" where
  "ssig0 x = rotr 7 x XOR rotr 18 x XOR drop_bit 3 x"

definition ssig1 :: "u32 \<Rightarrow> u32" where
  "ssig1 x = rotr 17 x XOR rotr 19 x XOR drop_bit 10 x"

definition K256 :: "u32 list" where
  "K256 = [
    0x428A2F98, 0x71374491, 0xB5C0FBCF, 0xE9B5DBA5, 0x3956C25B, 0x59F111F1, 0x923F82A4, 0xAB1C5ED5,
    0xD807AA98, 0x12835B01, 0x243185BE, 0x550C7DC3, 0x72BE5D74, 0x80DEB1FE, 0x9BDC06A7, 0xC19BF174,
    0xE49B69C1, 0xEFBE4786, 0x0FC19DC6, 0x240CA1CC, 0x2DE92C6F, 0x4A7484AA, 0x5CB0A9DC, 0x76F988DA,
    0x983E5152, 0xA831C66D, 0xB00327C8, 0xBF597FC7, 0xC6E00BF3, 0xD5A79147, 0x06CA6351, 0x14292967,
    0x27B70A85, 0x2E1B2138, 0x4D2C6DFC, 0x53380D13, 0x650A7354, 0x766A0ABB, 0x81C2C92E, 0x92722C85,
    0xA2BFE8A1, 0xA81A664B, 0xC24B8B70, 0xC76C51A3, 0xD192E819, 0xD6990624, 0xF40E3585, 0x106AA070,
    0x19A4C116, 0x1E376C08, 0x2748774C, 0x34B0BCB5, 0x391C0CB3, 0x4ED8AA4A, 0x5B9CCA4F, 0x682E6FF3,
    0x748F82EE, 0x78A5636F, 0x84C87814, 0x8CC70208, 0x90BEFFFA, 0xA4506CEB, 0xBEF9A3F7, 0xC67178F2]"

definition init256 :: "u32 list" where
  "init256 = [0x6A09E667, 0xBB67AE85, 0x3C6EF372, 0xA54FF53A,
              0x510E527F, 0x9B05688C, 0x1F83D9AB, 0x5BE0CD19]"

text \<open>Big-endian: four bytes make a word, a word gives four bytes.\<close>

fun be32 :: "byte list \<Rightarrow> u32 list" where
  "be32 (a # b # c # d # rest) =
     (push_bit 24 (ucast a) OR push_bit 16 (ucast b) OR push_bit 8 (ucast c) OR ucast d)
       # be32 rest"
| "be32 _ = []"

definition bytes_of_u32 :: "u32 \<Rightarrow> byte list" where
  "bytes_of_u32 x = [ucast (drop_bit 24 x), ucast (drop_bit 16 x), ucast (drop_bit 8 x), ucast x]"

definition bytes_of_len :: "nat \<Rightarrow> byte list" where
  "bytes_of_len n = map (\<lambda>i. word_of_nat (drop_bit (8 * i) n)) [7, 6, 5, 4, 3, 2, 1, 0]"

text \<open>
  Padding: the byte 0x80, zero bytes up to 56 modulo 64, and the length of the message
  in bits as a 64-bit big-endian number.
\<close>

definition pad :: "byte list \<Rightarrow> byte list" where
  "pad m = m @ [0x80] @ replicate ((119 - length m mod 64) mod 64) 0 @ bytes_of_len (8 * length m)"

text \<open>The message schedule: 16 words of the block, extended to 64.\<close>

fun schedule :: "nat \<Rightarrow> u32 list \<Rightarrow> u32 list" where
  "schedule 0 w = w"
| "schedule (Suc n) w =
     (let t = length w
      in schedule n
           (w @ [ssig1 (w ! (t - 2)) + w ! (t - 7) + ssig0 (w ! (t - 15)) + w ! (t - 16)]))"

fun round256 :: "u32 list \<Rightarrow> u32 \<times> u32 \<Rightarrow> u32 list" where
  "round256 [a, b, c, d, e, f, g, h] (k, w) =
     (let t1 = h + bsig1 e + Ch e f g + k + w;
          t2 = bsig0 a + Maj a b c
      in [t1 + t2, a, b, c, d + t1, e, f, g])"
| "round256 s _ = s"

definition block256 :: "u32 list \<Rightarrow> byte list \<Rightarrow> u32 list" where
  "block256 hs blk = map2 (+) hs (foldl round256 hs (zip K256 (schedule 48 (be32 blk))))"

fun blocks256 :: "nat \<Rightarrow> u32 list \<Rightarrow> byte list \<Rightarrow> u32 list" where
  "blocks256 0 hs p = hs"
| "blocks256 (Suc n) hs p = blocks256 n (block256 hs (take 64 p)) (drop 64 p)"

definition sha256 :: "byte list \<Rightarrow> byte list" where
  "sha256 m =
     (let p = pad m
      in concat (map bytes_of_u32 (blocks256 (length p div 64) init256 p)))"

subsection \<open>fmt, strings, path/filepath\<close>

text \<open>
  A Go string is a sequence of bytes, and so is a \<^typ>\<open>string\<close>.

  The verb \<^verbatim>\<open>%x\<close> of package fmt prints a byte slice as two lowercase hexadecimal digits
  a byte: the digits at \<^verbatim>\<open>c>>4\<close> and at \<^verbatim>\<open>c&0xF\<close> of \<^verbatim>\<open>"0123456789abcdef"\<close>.
\<close>

definition ldigits :: string where
  "ldigits = ''0123456789abcdef''"

definition hex_byte :: "byte \<Rightarrow> string" where
  "hex_byte c = [ldigits ! unat (drop_bit 4 c), ldigits ! unat (c AND 0xF)]"

definition hex :: "byte list \<Rightarrow> string" where
  "hex bs = concat (map hex_byte bs)"

text \<open>
  \<^verbatim>\<open>strings.TrimPrefix(s, prefix)\<close>: \<^verbatim>\<open>s\<close> without the leading \<^verbatim>\<open>prefix\<close>, and \<^verbatim>\<open>s\<close>
  itself when it does not start with \<^verbatim>\<open>prefix\<close>.
\<close>

definition TrimPrefix :: "string \<Rightarrow> string \<Rightarrow> string" where
  "TrimPrefix s prefix =
     (if take (length prefix) s = prefix then drop (length prefix) s else s)"

text \<open>
  \<^verbatim>\<open>filepath.Ext(path)\<close>, with \<^verbatim>\<open>/\<close> as the path separator:
  \<^verbatim>\<open>
  for i := len(path) - 1; i >= 0 && !os.IsPathSeparator(path[i]); i-- {
      if path[i] == '.' { return path[i:] }
  }
  return ""
  \<close>
  \<open>ExtLoop path n\<close> is the loop entered with \<^verbatim>\<open>i = n - 1\<close>.
\<close>

fun ExtLoop :: "string \<Rightarrow> nat \<Rightarrow> string" where
  "ExtLoop path 0 = []"
| "ExtLoop path (Suc i) =
     (if path ! i = CHR ''/'' then []
      else if path ! i = CHR ''.'' then drop i path
      else ExtLoop path i)"

definition Ext :: "string \<Rightarrow> string" where
  "Ext path = ExtLoop path (length path)"

section \<open>Package hashfs\<close>

subsection \<open>File sets, errors and the memoization store\<close>

text \<open>
  A file set (\<^verbatim>\<open>fs.FS\<close>) is a value of a type \<open>'fs\<close>, compared as Go compares the
  interface values in a \<^verbatim>\<open>cacheKey\<close>. What the file set holds is given by
  \<open>fsOpen :: 'fs \<Rightarrow> string \<Rightarrow> cause + fs_File\<close>, the method \<^verbatim>\<open>fs.Open\<close>: it fails with
  an error, or gives a file, and \<^verbatim>\<open>io.Copy\<close> from the file (reading it to its end)
  gives its bytes or fails with an error. The file set does not change while the
  program runs. An error of the file set is identified with its message.
\<close>

type_synonym cause = string

datatype fs_File = Bytes "byte list" | BadRead cause

text \<open>
  The errors of the package:
  \<^item> \<open>OpenError c\<close> is \<^verbatim>\<open>fmt.Errorf("hashfs: error opening file: %w", err)\<close>, which
    wraps the error \<open>c\<close> of \<^verbatim>\<open>fs.Open\<close>;
  \<^item> \<open>CopyError c\<close> is the error \<open>c\<close> of \<^verbatim>\<open>io.Copy\<close>, returned as it is;
  \<^item> \<open>PathMismatch p\<close> is \<^verbatim>\<open>fmt.Errorf("hashfs: path mismatch for %q", urlpath)\<close>.
\<close>

datatype error = OpenError cause | CopyError cause | PathMismatch string

text \<open>\<^verbatim>\<open>errors.Unwrap\<close>: only the verb \<^verbatim>\<open>%w\<close> wraps.\<close>

fun Unwrap :: "error \<Rightarrow> cause option" where
  "Unwrap (OpenError c) = Some c"
| "Unwrap (CopyError c) = None"
| "Unwrap (PathMismatch p) = None"

text \<open>
  \<^verbatim>\<open>err.Error()\<close>, which is also \<^verbatim>\<open>fmt.Sprint(err)\<close>. The verb \<^verbatim>\<open>%q\<close> quotes a string
  as \<^verbatim>\<open>strconv.Quote\<close> does; the quoting function is the parameter \<open>quote\<close>.
\<close>

fun Error :: "(string \<Rightarrow> string) \<Rightarrow> error \<Rightarrow> string" where
  "Error quote (OpenError c) = ''hashfs: error opening file: '' @ c"
| "Error quote (CopyError c) = c"
| "Error quote (PathMismatch p) = ''hashfs: path mismatch for '' @ quote p"

text \<open>
  The state of the process: \<open>cachedHashes\<close> is the package variable of that name, a
  \<^verbatim>\<open>sync.Map\<close> from \<^verbatim>\<open>cacheKey{fs, filename}\<close> to the hashed path. \<open>opened\<close> is not a
  variable of the program: it records the calls of \<^verbatim>\<open>fs.Open\<close> made so far, so that
  a theorem can say that a call reads no file.
\<close>

record 'fs world =
  cachedHashes :: "('fs \<times> string) \<rightharpoonup> string"
  opened :: "('fs \<times> string) list"

definition start :: "'fs world" where
  "start = \<lparr>cachedHashes = Map.empty, opened = []\<rparr>"

subsection \<open>MaybePath, Path and Unhashed\<close>

text \<open>
  Lines 81 to 83 of \<^verbatim>\<open>MaybePath\<close>:
  \<^verbatim>\<open>
  ext := filepath.Ext(filename)
  hashBytes := h.Sum(nil)
  newP := fmt.Sprintf("%s.%x%s", filename[0:len(filename)-len(ext)], hashBytes[:6], ext)
  \<close>
  where \<open>content\<close> is what \<^verbatim>\<open>io.Copy\<close> wrote to the hash.
\<close>

definition newP :: "string \<Rightarrow> byte list \<Rightarrow> string" where
  "newP filename content =
     (let ext = Ext filename;
          hashBytes = sha256 content
      in take (length filename - length ext) filename @ ''.'' @ hex (take 6 hashBytes) @ ext)"

text \<open>
  A Go function returning \<^verbatim>\<open>(string, error)\<close> returns a pair here, \<open>None\<close> for the
  \<^verbatim>\<open>nil\<close> error, together with the state it leaves.
\<close>

definition MaybePath ::
  "('fs \<Rightarrow> string \<Rightarrow> cause + fs_File) \<Rightarrow> 'fs \<Rightarrow> string \<Rightarrow> 'fs world
     \<Rightarrow> (string \<times> error option) \<times> 'fs world" where
  "MaybePath fsOpen fs filename w =
     (let key = (fs, filename)
      in case cachedHashes w key of
           Some urlpath \<Rightarrow> ((urlpath, None), w)
         | None \<Rightarrow>
             (let w1 = w\<lparr>opened := opened w @ [key]\<rparr>
              in case fsOpen fs filename of
                   Inl err \<Rightarrow> (([], Some (OpenError err)), w1)
                 | Inr (BadRead err) \<Rightarrow> (([], Some (CopyError err)), w1)
                 | Inr (Bytes content) \<Rightarrow>
                     (let p = newP filename content
                      in ((p, None), w1\<lparr>cachedHashes := (cachedHashes w1)(key \<mapsto> p)\<rparr>))))"

text \<open>\<^verbatim>\<open>Path\<close> returns the hashed path or panics with the error of \<^verbatim>\<open>MaybePath\<close>.\<close>

datatype 'a result = Returns 'a | Panics error

definition Path ::
  "('fs \<Rightarrow> string \<Rightarrow> cause + fs_File) \<Rightarrow> 'fs \<Rightarrow> string \<Rightarrow> 'fs world
     \<Rightarrow> string result \<times> 'fs world" where
  "Path fsOpen fs filename w =
     (case MaybePath fsOpen fs filename w of
        ((hashed, Some err), w') \<Rightarrow> (Panics err, w')
      | ((hashed, None), w') \<Rightarrow> (Returns hashed, w'))"

text \<open>
  Lines 91 to 100 of \<^verbatim>\<open>Unhashed\<close>, the file name a hashed path stands for:
  \<^verbatim>\<open>
  urlpathL := len(urlpath)
  ext := filepath.Ext(urlpath)
  extL := len(ext)
  hash := filepath.Ext(urlpath[0 : urlpathL-extL])
  if hash == "" { // assume extensionless, use ext as hash
      hash = ext
      ext = ""
      extL = 0
  }
  filename := urlpath[0:urlpathL-extL-len(hash)] + ext
  \<close>
\<close>

definition unhashedName :: "string \<Rightarrow> string" where
  "unhashedName urlpath =
     (let urlpathL = length urlpath;
          ext = Ext urlpath;
          extL = length ext;
          hash = Ext (take (urlpathL - extL) urlpath);
          (hash, ext, extL) = (if hash = [] then (ext, [], 0) else (hash, ext, extL))
      in take (urlpathL - extL - length hash) urlpath @ ext)"

definition Unhashed ::
  "('fs \<Rightarrow> string \<Rightarrow> cause + fs_File) \<Rightarrow> 'fs \<Rightarrow> string \<Rightarrow> 'fs world
     \<Rightarrow> (string \<times> error option) \<times> 'fs world" where
  "Unhashed fsOpen fs urlpath w =
     (let filename = unhashedName urlpath
      in case MaybePath fsOpen fs filename w of
           ((expectedPath, Some err), w') \<Rightarrow> (([], Some err), w')
         | ((expectedPath, None), w') \<Rightarrow>
             if expectedPath \<noteq> urlpath then (([], Some (PathMismatch urlpath)), w')
             else ((filename, None), w'))"

subsection \<open>FileServer\<close>

text \<open>
  Of the request the handler reads and writes \<^verbatim>\<open>r.URL.Path\<close> and \<^verbatim>\<open>r.URL.RawPath\<close>.
  It ends in one of two ways: \<^verbatim>\<open>http.Error(w, msg, code)\<close>, which writes the status
  \<open>code\<close> and the body \<open>msg\<close> followed by a newline, or \<^verbatim>\<open>hfs.ServeHTTP(w, r)\<close>, the
  file server of the standard library called with the rewritten request.
\<close>

record request =
  URL_Path :: string
  URL_RawPath :: string

datatype served = Wrote nat string | ServeHTTP request

definition StatusBadRequest :: nat where
  "StatusBadRequest = 400"

definition http_Error :: "string \<Rightarrow> nat \<Rightarrow> served" where
  "http_Error msg code = Wrote code (msg @ [CHR 0x0A])"

definition FileServer ::
  "('fs \<Rightarrow> string \<Rightarrow> cause + fs_File) \<Rightarrow> (string \<Rightarrow> string) \<Rightarrow> 'fs \<Rightarrow> request \<Rightarrow> 'fs world
     \<Rightarrow> served \<times> 'fs world" where
  "FileServer fsOpen quote fs r w =
     (case Unhashed fsOpen fs (TrimPrefix (URL_Path r) ''/'') w of
        ((filepath, Some err), w1) \<Rightarrow> (http_Error (Error quote err) StatusBadRequest, w1)
      | ((filepath, None), w1) \<Rightarrow>
          (let r1 = r\<lparr>URL_Path := ''/'' @ filepath\<rparr>
           in if URL_RawPath r1 \<noteq> []
              then (case Unhashed fsOpen fs (TrimPrefix (URL_RawPath r1) ''/'') w1 of
                      ((rawpath, Some err), w2) \<Rightarrow>
                        (http_Error (Error quote err) StatusBadRequest, w2)
                    | ((rawpath, None), w2) \<Rightarrow>
                        (ServeHTTP (r1\<lparr>URL_Path := ''/'' @ rawpath\<rparr>), w2))
              else (ServeHTTP r1, w1)))"

subsection \<open>The states the process reaches\<close>

text \<open>
  One call of an exported function takes the state \<open>w\<close> to the state \<open>w'\<close>. The process
  starts in \<^const>\<open>start\<close>, with an empty \<^verbatim>\<open>sync.Map\<close>.
\<close>

inductive calls :: "('fs \<Rightarrow> string \<Rightarrow> cause + fs_File) \<Rightarrow> 'fs world \<Rightarrow> 'fs world \<Rightarrow> bool"
  for fsOpen :: "'fs \<Rightarrow> string \<Rightarrow> cause + fs_File" where
  call_MaybePath: "calls fsOpen w (snd (MaybePath fsOpen fs filename w))"
| call_Path: "calls fsOpen w (snd (Path fsOpen fs filename w))"
| call_Unhashed: "calls fsOpen w (snd (Unhashed fsOpen fs urlpath w))"
| call_FileServer: "calls fsOpen w (snd (FileServer fsOpen quote fs r w))"

definition reachable :: "('fs \<Rightarrow> string \<Rightarrow> cause + fs_File) \<Rightarrow> 'fs world \<Rightarrow> bool" where
  "reachable fsOpen w = (calls fsOpen)\<^sup>*\<^sup>* start w"

subsection \<open>The invariant of the memoization store\<close>

text \<open>
  Every stored path is the one \<^verbatim>\<open>MaybePath\<close> computes from the bytes of the file it is
  stored for.
\<close>

definition stored_ok :: "('fs \<Rightarrow> string \<Rightarrow> cause + fs_File) \<Rightarrow> 'fs world \<Rightarrow> bool" where
  "stored_ok fsOpen w =
     (\<forall>fs filename p. cachedHashes w (fs, filename) = Some p \<longrightarrow>
        (\<exists>content. fsOpen fs filename = Inr (Bytes content) \<and> p = newP filename content))"

section \<open>The extension as the specification words it\<close>

text \<open>
  The specification splits a file name "at the last \<^verbatim>\<open>.\<close> in the final path segment (if
  no \<^verbatim>\<open>.\<close> exists, extension is empty and the entire filename is the stem)"; the
  extension includes the dot. \<open>spec_ext\<close> follows these words, to be compared with
  \<^const>\<open>Ext\<close>, which follows the loop of the library.
\<close>

definition final_segment :: "string \<Rightarrow> string" where
  "final_segment path = rev (takeWhile (\<lambda>c. c \<noteq> CHR ''/'') (rev path))"

definition spec_ext :: "string \<Rightarrow> string" where
  "spec_ext filename =
     (let seg = final_segment filename
      in if CHR ''.'' \<in> set seg
         then CHR ''.'' # rev (takeWhile (\<lambda>c. c \<noteq> CHR ''.'') (rev seg))
         else [])"

section \<open>Example file sets\<close>

text \<open>
  A file set given by the list of its files; a name that is not in the list does not
  open. \<open>site\<close> has a script of three bytes (\<^verbatim>\<open>abc\<close>), an empty file without extension
  and a directory, which opens but does not read. \<open>mirror\<close> has two empty files, the
  name of the second being the escaped form of the name of the first.
\<close>

type_synonym memfs = "(string \<times> fs_File) list"

definition memOpen :: "memfs \<Rightarrow> string \<Rightarrow> cause + fs_File" where
  "memOpen files name =
     (case map_of files name of
        None \<Rightarrow> Inl (''open '' @ name @ '': file does not exist'')
      | Some f \<Rightarrow> Inr f)"

definition site :: memfs where
  "site = [(''assets/main.js'', Bytes [0x61, 0x62, 0x63]),
           (''assets/empty'', Bytes []),
           (''assets'', BadRead ''read assets: is a directory'')]"

definition mirror :: memfs where
  "mirror = [(''a/empty'', Bytes []), (''a%2Fempty'', Bytes [])]"

text \<open>
  The request \<^verbatim>\<open>GET /a%2Fempty.e3b0c44298fc\<close>, as package net/url parses it: the
  path is unescaped, and the escaped path is kept because it is not the default
  encoding of the path.
\<close>

definition mirror_request :: request where
  "mirror_request =
     \<lparr>URL_Path = ''/a/empty.e3b0c44298fc'', URL_RawPath = ''/a%2Fempty.e3b0c44298fc''\<rparr>"

text \<open>
  The state after the first call \<^verbatim>\<open>MaybePath(site, "assets/main.js")\<close>, and the state
  after a further call \<^verbatim>\<open>Unhashed(site, "assets/empty.e3b0c44298fc")\<close>.
\<close>

definition site_main :: "memfs world" where
  "site_main =
     \<lparr>cachedHashes = [(site, ''assets/main.js'') \<mapsto> ''assets/main.ba7816bf8f01.js''],
      opened = [(site, ''assets/main.js'')]\<rparr>"

definition site_both :: "memfs world" where
  "site_both =
     \<lparr>cachedHashes = [(site, ''assets/main.js'') \<mapsto> ''assets/main.ba7816bf8f01.js'',
                      (site, ''assets/empty'') \<mapsto> ''assets/empty.e3b0c44298fc''],
      opened = [(site, ''assets/main.js''), (site, ''assets/empty'')]\<rparr>"

text \<open>
  \<^verbatim>\<open>strconv.Quote\<close> puts a string of printable ASCII characters, none of them a double
  quote or a backslash, between double quotes. The examples quote such strings only.
\<close>

definition Quote_plain :: "string \<Rightarrow> string" where
  "Quote_plain s = [CHR 0x22] @ s @ [CHR 0x22]"

section \<open>The digest\<close>

text \<open>The digest has 32 bytes, whatever the message.\<close>

lemma length_round256: "length (round256 s kw) = length s"
  by (induction s kw rule: round256.induct) (simp_all add: Let_def)

lemma length_foldl_round256: "length (foldl round256 s kws) = length s"
  by (induction kws arbitrary: s) (simp_all add: length_round256)

lemma length_block256: "length (block256 hs blk) = length hs"
  by (simp add: block256_def length_foldl_round256)

lemma length_blocks256: "length (blocks256 n hs p) = length hs"
  by (induction n arbitrary: hs p) (simp_all add: length_block256)

lemma length_concat_bytes_of_u32: "length (concat (map bytes_of_u32 ws)) = 4 * length ws"
  by (induction ws) (simp_all add: bytes_of_u32_def)

lemma length_sha256: "length (sha256 m) = 32"
  by (simp add: sha256_def Let_def length_concat_bytes_of_u32 length_blocks256 init256_def)

text \<open>
  Equations for computing a digest by rewriting: they unfold the recursion at a numeral
  and keep each sum reduced to 32 bits. The digests of three messages are computed with
  them below: the empty message, the message \<^verbatim>\<open>abc\<close> and a message of 56 bytes,
  which pads to two blocks. They are the values every implementation of SHA-256 gives.
\<close>

lemma u32_take_bit: "take_bit 32 (x :: u32) = x"
  by (rule take_bit_word_eq_self) simp

lemma replicate_numeral: "replicate (numeral k) x = x # replicate (pred_numeral k) x"
  by (simp add: numeral_eq_Suc)

lemma schedule_numeral:
  "schedule (numeral k) w =
     schedule (pred_numeral k)
       (w @ [take_bit 32 (ssig1 (w ! (length w - 2)) + w ! (length w - 7)
              + ssig0 (w ! (length w - 15)) + w ! (length w - 16))])"
  unfolding u32_take_bit by (simp add: numeral_eq_Suc Let_def)

lemma schedule_Suc_0:
  "schedule (Suc 0) w =
     w @ [take_bit 32 (ssig1 (w ! (length w - 2)) + w ! (length w - 7)
              + ssig0 (w ! (length w - 15)) + w ! (length w - 16))]"
  unfolding u32_take_bit by (simp add: Let_def)

lemma round256_take_bit:
  "round256 [a, b, c, d, e, f, g, h] (k, w) =
     [take_bit 32 (h + bsig1 e + Ch e f g + k + w + (bsig0 a + Maj a b c)), a, b, c,
      take_bit 32 (d + (h + bsig1 e + Ch e f g + k + w)), e, f, g]"
  unfolding u32_take_bit by (simp add: Let_def)

lemma blocks256_numeral:
  "blocks256 (numeral k) hs p = blocks256 (pred_numeral k) (block256 hs (take 64 p)) (drop 64 p)"
  by (simp add: numeral_eq_Suc)

lemma blocks256_Suc_0: "blocks256 (Suc 0) hs p = block256 hs (take 64 p)"
  by simp

lemmas sha256_eval =
  sha256_def pad_def bytes_of_len_def bytes_of_u32_def block256_def K256_def init256_def
  replicate_numeral schedule_numeral schedule_Suc_0 round256_take_bit
  blocks256_numeral blocks256_Suc_0
  ssig0_def ssig1_def bsig0_def bsig1_def Ch_def Maj_def rotr_def Let_def

section \<open>Hexadecimal digits\<close>

lemma hex_digit_hi: "unat (drop_bit 4 (c :: byte)) < 16"
proof -
  have "unat c < 2 ^ 8"
    using unsigned_less [of c] by simp
  then show ?thesis
    by (simp add: drop_bit_eq_div unat_div less_mult_imp_div_less)
qed

lemma hex_digit_lo: "unat ((c :: byte) AND 0xF) < 16"
proof -
  have "unat (c AND 0xF) \<le> unat (0xF :: byte)"
    by (rule word_and_le1 [THEN word_le_nat_alt [THEN iffD1]])
  then show ?thesis by simp
qed

lemma set_hex_byte: "set (hex_byte c) \<subseteq> set ldigits"
proof -
  have "length ldigits = 16" by (simp add: ldigits_def)
  then show ?thesis
    using hex_digit_hi [of c] hex_digit_lo [of c] by (simp add: hex_byte_def)
qed

lemma set_hex: "set (hex bs) \<subseteq> set ldigits"
  using set_hex_byte by (auto simp: hex_def)

lemma length_hex: "length (hex bs) = 2 * length bs"
  by (induction bs) (simp_all add: hex_def hex_byte_def)

lemma hex_plain: "CHR ''.'' \<notin> set (hex bs)" "CHR ''/'' \<notin> set (hex bs)"
  using set_hex [of bs] by (auto simp: ldigits_def)

lemma hex_Cons: "hex (b # bs) = hex_byte b @ hex bs"
  by (simp add: hex_def)

lemma hex_take: "hex (take n bs) = take (2 * n) (hex bs)"
proof (induction bs arbitrary: n)
  case Nil
  show ?case by (simp add: hex_def)
next
  case (Cons b bs)
  show ?case
  proof (cases n)
    case 0
    then show ?thesis by (simp add: hex_def)
  next
    case (Suc m)
    then show ?thesis
      using Cons.IH [of m] by (simp add: hex_Cons hex_byte_def)
  qed
qed

section \<open>Test vectors of the digest\<close>

lemmas hex_eval = hex_def hex_byte_def ldigits_def

lemma sha256_empty:
  "hex (sha256 []) = ''e3b0c44298fc1c149afbf4c8996fb92427ae41e4649b934ca495991b7852b855''"
  by (simp add: sha256_eval hex_eval del: schedule.simps round256.simps blocks256.simps)

lemma sha256_abc:
  "hex (sha256 [0x61, 0x62, 0x63])
     = ''ba7816bf8f01cfea414140de5dae2223b00361a396177a9cb410ff61f20015ad''"
  by (simp add: sha256_eval hex_eval del: schedule.simps round256.simps blocks256.simps)

lemma sha256_two_blocks:
  "hex (sha256 (replicate 56 0x61))
     = ''b35439a4ac6f0948b6d6f9e3c6af0f5f590ce20f1bde7090ef7970686ec6738a''"
  by (simp add: sha256_eval hex_eval del: schedule.simps round256.simps blocks256.simps)

lemma hex_digest_empty: "hex (take 6 (sha256 [])) = ''e3b0c44298fc''"
  by (simp add: hex_take sha256_empty)

lemma hex_digest_abc: "hex (take 6 (sha256 [0x61, 0x62, 0x63])) = ''ba7816bf8f01''"
  by (simp add: hex_take sha256_abc)

section \<open>The extension\<close>

text \<open>
  The loop on a path with one more byte at its end: everything about \<^const>\<open>Ext\<close>
  follows from this by induction on the path from its end.
\<close>

lemma ExtLoop_append:
  "i \<le> length p \<Longrightarrow> ExtLoop (p @ q) i = (if ExtLoop p i = [] then [] else ExtLoop p i @ q)"
  by (induction i) (auto simp: nth_append)

lemma Ext_snoc:
  "Ext (p @ [c]) =
     (if c = CHR ''/'' then [] else if c = CHR ''.'' then [c]
      else if Ext p = [] then [] else Ext p @ [c])"
  by (simp add: Ext_def ExtLoop_append)

lemma Ext_Nil: "Ext [] = []"
  by (simp add: Ext_def)

lemma Ext_append_plain:
  "CHR ''.'' \<notin> set q \<Longrightarrow> CHR ''/'' \<notin> set q \<Longrightarrow>
   Ext (p @ q) = (if Ext p = [] then [] else Ext p @ q)"
proof (induction q rule: rev_induct)
  case Nil
  then show ?case by simp
next
  case (snoc c q)
  then show ?case
    using Ext_snoc [of "p @ q" c] by auto
qed

lemma Ext_append_dot:
  "CHR ''.'' \<notin> set q \<Longrightarrow> CHR ''/'' \<notin> set q \<Longrightarrow> Ext (p @ CHR ''.'' # q) = CHR ''.'' # q"
  using Ext_append_plain [of q "p @ [CHR ''.'']"] by (simp add: Ext_snoc)

lemma Ext_shape:
  "Ext p \<noteq> [] \<Longrightarrow> \<exists>q. Ext p = CHR ''.'' # q \<and> CHR ''.'' \<notin> set q \<and> CHR ''/'' \<notin> set q"
  by (induction p rule: rev_induct) (auto simp: Ext_snoc Ext_Nil split: if_splits)

text \<open>The extension is a suffix of the path, so the slices of the package are in range.\<close>

lemma Ext_suffix: "take (length p - length (Ext p)) p @ Ext p = p"
  by (induction p rule: rev_induct) (auto simp: Ext_snoc Ext_Nil)

lemma length_Ext: "length (Ext p) \<le> length p"
  by (induction p rule: rev_induct) (auto simp: Ext_snoc Ext_Nil)

lemma final_segment_snoc:
  "final_segment (p @ [c]) = (if c = CHR ''/'' then [] else final_segment p @ [c])"
  by (simp add: final_segment_def)

lemma spec_ext_snoc:
  "spec_ext (p @ [c]) =
     (if c = CHR ''/'' then [] else if c = CHR ''.'' then [c]
      else if spec_ext p = [] then [] else spec_ext p @ [c])"
  by (simp add: spec_ext_def final_segment_snoc Let_def)

lemma Ext_eq_spec_ext: "Ext path = spec_ext path"
proof (induction path rule: rev_induct)
  case Nil
  show ?case by (simp add: Ext_Nil spec_ext_def final_segment_def)
next
  case (snoc c path)
  then show ?case by (simp add: Ext_snoc spec_ext_snoc)
qed

section \<open>The file name of a hashed path\<close>

text \<open>The string surgery of \<^verbatim>\<open>Unhashed\<close> undoes that of \<^verbatim>\<open>MaybePath\<close>, for every file name.\<close>

lemma unhashedName_newP: "unhashedName (newP filename content) = filename"
proof -
  define h where "h = hex (take 6 (sha256 content))"
  define stem where "stem = take (length filename - length (Ext filename)) filename"
  have plain: "CHR ''.'' \<notin> set h" "CHR ''/'' \<notin> set h"
    by (simp_all add: h_def hex_plain)
  have split: "stem @ Ext filename = filename"
    by (simp add: stem_def Ext_suffix)
  have p: "newP filename content = stem @ CHR ''.'' # h @ Ext filename"
    by (simp add: newP_def Let_def h_def stem_def)
  show ?thesis
  proof (cases "Ext filename = []")
    case True
    then have "stem = filename" using split by simp
    with True p have p': "newP filename content = filename @ CHR ''.'' # h" by simp
    have e: "Ext (filename @ CHR ''.'' # h) = CHR ''.'' # h"
      using plain by (rule Ext_append_dot)
    show ?thesis
      by (simp add: unhashedName_def Let_def p' e True)
  next
    case False
    then obtain q where q: "Ext filename = CHR ''.'' # q"
      "CHR ''.'' \<notin> set q" "CHR ''/'' \<notin> set q"
      using Ext_shape by blast
    have p': "newP filename content = (stem @ CHR ''.'' # h) @ CHR ''.'' # q"
      by (simp add: p q)
    have e1: "Ext ((stem @ CHR ''.'' # h) @ CHR ''.'' # q) = CHR ''.'' # q"
      using q(2,3) by (rule Ext_append_dot)
    have e2: "Ext (stem @ CHR ''.'' # h) = CHR ''.'' # h"
      using plain by (rule Ext_append_dot)
    have "unhashedName ((stem @ CHR ''.'' # h) @ CHR ''.'' # q) = stem @ CHR ''.'' # q"
      unfolding unhashedName_def Let_def e1 by (simp add: e2)
    then show ?thesis
      using split by (simp add: p' q)
  qed
qed

section \<open>The memoization store\<close>

lemma MaybePath_hit:
  "cachedHashes w (fs, filename) = Some p \<Longrightarrow> MaybePath fsOpen fs filename w = ((p, None), w)"
  by (simp add: MaybePath_def)

lemma MaybePath_keeps:
  "cachedHashes w k = Some p \<Longrightarrow> cachedHashes (snd (MaybePath fsOpen fs filename w)) k = Some p"
  by (auto simp: MaybePath_def Let_def split: option.splits sum.splits fs_File.splits)

lemma MaybePath_stored_ok:
  "stored_ok fsOpen w \<Longrightarrow> stored_ok fsOpen (snd (MaybePath fsOpen fs filename w))"
  by (auto simp: MaybePath_def Let_def stored_ok_def split: option.splits sum.splits fs_File.splits)

text \<open>The other functions change the state through \<^verbatim>\<open>MaybePath\<close> only.\<close>

lemma snd_Path: "snd (Path fsOpen fs filename w) = snd (MaybePath fsOpen fs filename w)"
  by (simp add: Path_def split: prod.splits option.splits)

lemma snd_Unhashed:
  "snd (Unhashed fsOpen fs urlpath w) = snd (MaybePath fsOpen fs (unhashedName urlpath) w)"
  by (simp add: Unhashed_def Let_def split: prod.splits option.splits)

lemma snd_FileServer:
  assumes "w1 = snd (Unhashed fsOpen fs (TrimPrefix (URL_Path r) ''/'') w)"
  shows "snd (FileServer fsOpen quote fs r w) = w1
         \<or> snd (FileServer fsOpen quote fs r w) =
             snd (Unhashed fsOpen fs (TrimPrefix (URL_RawPath r) ''/'') w1)"
  using assms by (auto simp: FileServer_def Let_def split: prod.splits option.splits)

lemma calls_invariant:
  assumes "calls fsOpen w w'"
    and "\<And>fs filename v. P v \<Longrightarrow> P (snd (MaybePath fsOpen fs filename v))"
    and "P w"
  shows "P w'"
  using assms(1)
proof cases
  case (call_MaybePath fs filename)
  then show ?thesis using assms(2,3) by simp
next
  case (call_Path fs filename)
  then show ?thesis using assms(2,3) by (simp add: snd_Path)
next
  case (call_Unhashed fs urlpath)
  then show ?thesis using assms(2,3) by (simp add: snd_Unhashed)
next
  case (call_FileServer quote fs r)
  then show ?thesis
    using assms(2,3) snd_FileServer [OF refl, of fsOpen quote fs r w]
    by (auto simp: snd_Unhashed)
qed

lemma calls_star_invariant:
  assumes "(calls fsOpen)\<^sup>*\<^sup>* w w'"
    and "\<And>fs filename v. P v \<Longrightarrow> P (snd (MaybePath fsOpen fs filename v))"
    and "P w"
  shows "P w'"
  using assms(1)
proof (induction rule: rtranclp_induct)
  case base
  show ?case by (rule assms(3))
next
  case (step y z)
  show ?case by (rule calls_invariant [OF step(2) assms(2) step(3)])
qed

lemma reachable_start: "reachable fsOpen start"
  by (simp add: reachable_def)

lemma reachable_calls: "reachable fsOpen w \<Longrightarrow> calls fsOpen w w' \<Longrightarrow> reachable fsOpen w'"
  by (simp add: reachable_def)

lemma reachable_stored_ok: "reachable fsOpen w \<Longrightarrow> stored_ok fsOpen w"
  unfolding reachable_def
  by (erule calls_star_invariant) (simp_all add: MaybePath_stored_ok, simp add: stored_ok_def start_def)

lemma MaybePath_Bytes:
  assumes "stored_ok fsOpen w" and "fsOpen fs filename = Inr (Bytes content)"
  shows "fst (MaybePath fsOpen fs filename w) = (newP filename content, None)"
    and "cachedHashes (snd (MaybePath fsOpen fs filename w)) (fs, filename)
           = Some (newP filename content)"
  using assms by (fastforce simp: MaybePath_def Let_def stored_ok_def split: option.splits)+

lemma MaybePath_success:
  assumes "stored_ok fsOpen w" and "MaybePath fsOpen fs filename w = ((p, None), w1)"
  shows "\<exists>content. fsOpen fs filename = Inr (Bytes content) \<and> p = newP filename content
           \<and> cachedHashes w1 (fs, filename) = Some p"
  using assms
  by (auto simp: MaybePath_def Let_def stored_ok_def split: option.splits sum.splits fs_File.splits)

text \<open>An error of \<^verbatim>\<open>MaybePath\<close> is the error of \<^verbatim>\<open>Unhashed\<close>.\<close>

lemma Unhashed_error:
  assumes "MaybePath fsOpen fs (unhashedName urlpath) w = ((p, Some err), w1)"
  shows "Unhashed fsOpen fs urlpath w = (([], Some err), w1)"
  using assms by (simp add: Unhashed_def)

section \<open>What the handler passes on\<close>

lemma FileServer_no_RawPath:
  assumes "Unhashed fsOpen fs (TrimPrefix (URL_Path r) ''/'') w = ((filepath, None), w1)"
    and "URL_RawPath r = []"
  shows "FileServer fsOpen quote fs r w = (ServeHTTP (r\<lparr>URL_Path := ''/'' @ filepath\<rparr>), w1)"
  using assms by (simp add: FileServer_def Let_def)

lemma FileServer_RawPath:
  assumes "Unhashed fsOpen fs (TrimPrefix (URL_Path r) ''/'') w = ((filepath, None), w1)"
    and "URL_RawPath r \<noteq> []"
    and "Unhashed fsOpen fs (TrimPrefix (URL_RawPath r) ''/'') w1 = ((rawpath, None), w2)"
  shows "FileServer fsOpen quote fs r w = (ServeHTTP (r\<lparr>URL_Path := ''/'' @ rawpath\<rparr>), w2)"
  using assms by (simp add: FileServer_def Let_def)

lemma FileServer_RawPath_error:
  assumes "Unhashed fsOpen fs (TrimPrefix (URL_Path r) ''/'') w = ((filepath, None), w1)"
    and "URL_RawPath r \<noteq> []"
    and "Unhashed fsOpen fs (TrimPrefix (URL_RawPath r) ''/'') w1 = ((rawpath, Some err), w2)"
  shows "FileServer fsOpen quote fs r w = (Wrote 400 (Error quote err @ [CHR 0x0A]), w2)"
  using assms by (simp add: FileServer_def Let_def http_Error_def StatusBadRequest_def)

section \<open>The examples, computed\<close>

lemma newP_empty: "Ext name = [] \<Longrightarrow> newP name [] = name @ ''.e3b0c44298fc''"
  by (simp add: newP_def hex_digest_empty)

lemma newP_main_js: "newP ''assets/main.js'' [0x61, 0x62, 0x63] = ''assets/main.ba7816bf8f01.js''"
  by (simp add: newP_def hex_digest_abc Ext_def)

lemma newP_assets_empty: "newP ''assets/empty'' [] = ''assets/empty.e3b0c44298fc''"
  by (simp add: newP_def hex_digest_empty Ext_def)

lemma spec_ext_main_js: "spec_ext ''assets/main.js'' = ''.js''"
  by (simp add: spec_ext_def final_segment_def)

lemma unhashedName_zero: "unhashedName ''assets/main.000000000000.js'' = ''assets/main.js''"
  by (simp add: unhashedName_def Ext_def)

lemma MaybePath_main_js:
  "MaybePath memOpen site ''assets/main.js'' start
     = ((''assets/main.ba7816bf8f01.js'', None), site_main)"
  by (simp add: MaybePath_def Let_def start_def site_main_def memOpen_def site_def newP_main_js)

lemma Unhashed_assets_empty:
  "Unhashed memOpen site ''assets/empty.e3b0c44298fc'' site_main
     = ((''assets/empty'', None), site_both)"
proof -
  have n: "unhashedName ''assets/empty.e3b0c44298fc'' = ''assets/empty''"
    by (simp add: unhashedName_def Ext_def)
  show ?thesis
    by (simp add: Unhashed_def n MaybePath_def Let_def site_main_def site_both_def
        memOpen_def site_def newP_assets_empty)
qed

lemma Unhashed_mirror_Path:
  "Unhashed memOpen mirror ''a/empty.e3b0c44298fc'' start
     = ((''a/empty'', None),
        \<lparr>cachedHashes = [(mirror, ''a/empty'') \<mapsto> ''a/empty.e3b0c44298fc''],
         opened = [(mirror, ''a/empty'')]\<rparr>)"
proof -
  have n: "unhashedName ''a/empty.e3b0c44298fc'' = ''a/empty''"
    by (simp add: unhashedName_def Ext_def)
  have e: "Ext ''a/empty'' = []"
    by (simp add: Ext_def)
  show ?thesis
    by (simp add: Unhashed_def n MaybePath_def Let_def start_def memOpen_def mirror_def
        newP_empty [OF e])
qed

lemma Unhashed_mirror_RawPath:
  "Unhashed memOpen mirror ''a%2Fempty.e3b0c44298fc''
       \<lparr>cachedHashes = [(mirror, ''a/empty'') \<mapsto> ''a/empty.e3b0c44298fc''],
        opened = [(mirror, ''a/empty'')]\<rparr>
     = ((''a%2Fempty'', None),
        \<lparr>cachedHashes = [(mirror, ''a/empty'') \<mapsto> ''a/empty.e3b0c44298fc'',
                         (mirror, ''a%2Fempty'') \<mapsto> ''a%2Fempty.e3b0c44298fc''],
         opened = [(mirror, ''a/empty''), (mirror, ''a%2Fempty'')]\<rparr>)"
proof -
  have n: "unhashedName ''a%2Fempty.e3b0c44298fc'' = ''a%2Fempty''"
    by (simp add: unhashedName_def Ext_def)
  have e: "Ext ''a%2Fempty'' = []"
    by (simp add: Ext_def)
  show ?thesis
    by (simp add: Unhashed_def n MaybePath_def Let_def memOpen_def mirror_def
        newP_empty [OF e])
qed

lemma Unhashed_mirror_RawPath_start:
  "fst (Unhashed memOpen mirror ''a%2Fempty.e3b0c44298fc'' start) = (''a%2Fempty'', None)"
proof -
  have n: "unhashedName ''a%2Fempty.e3b0c44298fc'' = ''a%2Fempty''"
    by (simp add: unhashedName_def Ext_def)
  have e: "Ext ''a%2Fempty'' = []"
    by (simp add: Ext_def)
  show ?thesis
    by (simp add: Unhashed_def n MaybePath_def Let_def start_def memOpen_def mirror_def
        newP_empty [OF e])
qed

section \<open>The claims\<close>

text \<open>
  Claim C1, the round trip. In a state the process reaches, when \<^verbatim>\<open>MaybePath(fs, filename)\<close>
  returns a hashed path without error, \<^verbatim>\<open>Unhashed\<close> of that path, called next, returns
  exactly \<^verbatim>\<open>filename\<close> and no error (and opens no file).
\<close>

theorem roundtrip:
  assumes "reachable fsOpen w" and "MaybePath fsOpen fs filename w = ((p, None), w1)"
  shows "Unhashed fsOpen fs p w1 = ((filename, None), w1)"
proof -
  have "\<exists>content. fsOpen fs filename = Inr (Bytes content) \<and> p = newP filename content
           \<and> cachedHashes w1 (fs, filename) = Some p"
    by (rule MaybePath_success [OF reachable_stored_ok [OF assms(1)] assms(2)])
  then obtain content where c: "p = newP filename content"
      "cachedHashes w1 (fs, filename) = Some p"
    by blast
  have "unhashedName p = filename"
    by (simp add: c(1) unhashedName_newP)
  then show ?thesis
    by (simp add: Unhashed_def MaybePath_hit [OF c(2)])
qed

theorem roundtrip_witness:
  "reachable memOpen (start :: memfs world)
   \<and> MaybePath memOpen site ''assets/main.js'' start
       = ((''assets/main.ba7816bf8f01.js'', None), site_main)
   \<and> Unhashed memOpen site ''assets/main.ba7816bf8f01.js'' site_main
       = ((''assets/main.js'', None), site_main)"
  using roundtrip [OF reachable_start MaybePath_main_js] reachable_start [of memOpen]
    MaybePath_main_js
  by simp

text \<open>
  Claim C2, the wire format. In a state the process reaches, for a file that opens and
  reads with the bytes \<open>C\<close>, \<^verbatim>\<open>MaybePath\<close> returns \<open>stem @ ''.'' @ digest @ ext\<close> and no
  error, where \<open>ext\<close> is the extension of the file name as the specification words it
  (from the last dot of the final path segment, empty without a dot), \<open>stem\<close> is the
  file name without \<open>ext\<close>, and \<open>digest\<close> is the first 6 bytes of SHA-256 of \<open>C\<close> in
  hexadecimal: 12 characters, each a digit or a lowercase letter from a to f.
\<close>

theorem wire_format:
  assumes "reachable fsOpen w"
    and "fsOpen fs filename = Inr (Bytes C)"
    and "stem @ spec_ext filename = filename"
  shows "fst (MaybePath fsOpen fs filename w)
           = (stem @ ''.'' @ hex (take 6 (sha256 C)) @ spec_ext filename, None)
         \<and> length (hex (take 6 (sha256 C))) = 12
         \<and> set (hex (take 6 (sha256 C))) \<subseteq> set ''0123456789abcdef''"
proof -
  have "take (length filename - length (Ext filename)) filename @ Ext filename
          = stem @ Ext filename"
    using assms(3) Ext_suffix [of filename] by (simp add: Ext_eq_spec_ext)
  then have "take (length filename - length (Ext filename)) filename = stem"
    by simp
  then have "newP filename C = stem @ ''.'' @ hex (take 6 (sha256 C)) @ spec_ext filename"
    by (simp add: newP_def Let_def Ext_eq_spec_ext)
  moreover have "fst (MaybePath fsOpen fs filename w) = (newP filename C, None)"
    by (rule MaybePath_Bytes(1) [OF reachable_stored_ok [OF assms(1)] assms(2)])
  moreover have "length (hex (take 6 (sha256 C))) = 12"
    by (simp add: length_hex length_sha256)
  moreover have "set (hex (take 6 (sha256 C))) \<subseteq> set ''0123456789abcdef''"
    using set_hex [of "take 6 (sha256 C)"] by (simp add: ldigits_def)
  ultimately show ?thesis by simp
qed

theorem wire_format_witness:
  "reachable memOpen (start :: memfs world)
   \<and> memOpen site ''assets/main.js'' = Inr (Bytes [0x61, 0x62, 0x63])
   \<and> ''assets/main'' @ spec_ext ''assets/main.js'' = ''assets/main.js''
   \<and> fst (MaybePath memOpen site ''assets/main.js'' start)
       = (''assets/main.ba7816bf8f01.js'', None)"
proof -
  have h1: "reachable memOpen (start :: memfs world)"
    by (rule reachable_start)
  have h2: "memOpen site ''assets/main.js'' = Inr (Bytes [0x61, 0x62, 0x63])"
    by (simp add: memOpen_def site_def)
  have h3: "''assets/main'' @ spec_ext ''assets/main.js'' = ''assets/main.js''"
    by (simp add: spec_ext_main_js)
  show ?thesis
    using wire_format [where fsOpen = memOpen, OF h1 h2 h3] h1 h2 h3
    by (simp add: hex_digest_abc spec_ext_main_js)
qed

text \<open>
  Claim C3, tamper rejection. When \<^verbatim>\<open>MaybePath\<close> of the file name reconstructed from a
  path \<open>P\<close> returns a hashed path other than \<open>P\<close>, \<^verbatim>\<open>Unhashed(fs, P)\<close> returns the empty
  file name and the path-mismatch error for \<open>P\<close>.
\<close>

theorem tamper_rejection:
  assumes "MaybePath fsOpen fs (unhashedName P) w = ((p, None), w1)" and "P \<noteq> p"
  shows "Unhashed fsOpen fs P w = (([], Some (PathMismatch P)), w1)"
  using assms by (auto simp: Unhashed_def)

theorem tamper_rejection_witness:
  "MaybePath memOpen site (unhashedName ''assets/main.000000000000.js'') start
     = ((''assets/main.ba7816bf8f01.js'', None), site_main)
   \<and> ''assets/main.000000000000.js'' \<noteq> ''assets/main.ba7816bf8f01.js''
   \<and> Unhashed memOpen site ''assets/main.000000000000.js'' start
     = (([], Some (PathMismatch ''assets/main.000000000000.js'')), site_main)"
proof -
  have h1: "MaybePath memOpen site (unhashedName ''assets/main.000000000000.js'') start
     = ((''assets/main.ba7816bf8f01.js'', None), site_main)"
    by (simp add: unhashedName_zero MaybePath_main_js)
  have h2: "''assets/main.000000000000.js'' \<noteq> ''assets/main.ba7816bf8f01.js''"
    by simp
  show ?thesis
    using tamper_rejection [OF h1 h2] h1 h2 by simp
qed

text \<open>
  Claim C4, the raw path. The claim says that the handler rewrites the escaped path of
  the request to the original form and passes on the decoded parsed path. The handler
  does not: it assigns the decoded escaped path to \<^verbatim>\<open>r.URL.Path\<close> and leaves
  \<^verbatim>\<open>r.URL.RawPath\<close> as it came. For the request \<^verbatim>\<open>GET /a%2Fempty.e3b0c44298fc\<close> on the
  file set \<open>mirror\<close>, the parsed path decodes to \<^verbatim>\<open>a/empty\<close> and the escaped path to
  \<^verbatim>\<open>a%2Fempty\<close>; the request passed to the file server has the path \<^verbatim>\<open>/a%2Fempty\<close>
  and the escaped path still in hashed form.
\<close>

theorem raw_path_overwrites_path:
  "fst (FileServer memOpen Quote_plain mirror mirror_request start)
     = ServeHTTP \<lparr>URL_Path = ''/a%2Fempty'', URL_RawPath = ''/a%2Fempty.e3b0c44298fc''\<rparr>
   \<and> fst (Unhashed memOpen mirror (TrimPrefix (URL_Path mirror_request) ''/'') start)
     = (''a/empty'', None)
   \<and> fst (Unhashed memOpen mirror (TrimPrefix (URL_RawPath mirror_request) ''/'') start)
     = (''a%2Fempty'', None)"
proof -
  have p: "TrimPrefix (URL_Path mirror_request) ''/'' = ''a/empty.e3b0c44298fc''"
    by (simp add: mirror_request_def TrimPrefix_def)
  have q: "TrimPrefix (URL_RawPath mirror_request) ''/'' = ''a%2Fempty.e3b0c44298fc''"
    by (simp add: mirror_request_def TrimPrefix_def)
  have a: "Unhashed memOpen mirror (TrimPrefix (URL_Path mirror_request) ''/'') start
     = ((''a/empty'', None),
        \<lparr>cachedHashes = [(mirror, ''a/empty'') \<mapsto> ''a/empty.e3b0c44298fc''],
         opened = [(mirror, ''a/empty'')]\<rparr>)"
    unfolding p by (rule Unhashed_mirror_Path)
  have b: "URL_RawPath mirror_request \<noteq> []"
    by (simp add: mirror_request_def)
  have c: "Unhashed memOpen mirror (TrimPrefix (URL_RawPath mirror_request) ''/'')
       \<lparr>cachedHashes = [(mirror, ''a/empty'') \<mapsto> ''a/empty.e3b0c44298fc''],
        opened = [(mirror, ''a/empty'')]\<rparr>
     = ((''a%2Fempty'', None),
        \<lparr>cachedHashes = [(mirror, ''a/empty'') \<mapsto> ''a/empty.e3b0c44298fc'',
                         (mirror, ''a%2Fempty'') \<mapsto> ''a%2Fempty.e3b0c44298fc''],
         opened = [(mirror, ''a/empty''), (mirror, ''a%2Fempty'')]\<rparr>)"
    unfolding q by (rule Unhashed_mirror_RawPath)
  have "fst (FileServer memOpen Quote_plain mirror mirror_request start)
          = ServeHTTP (mirror_request\<lparr>URL_Path := ''/'' @ ''a%2Fempty''\<rparr>)"
    by (simp add: FileServer_RawPath [where fsOpen = memOpen, OF a b c])
  then have r1: "fst (FileServer memOpen Quote_plain mirror mirror_request start)
     = ServeHTTP \<lparr>URL_Path = ''/a%2Fempty'', URL_RawPath = ''/a%2Fempty.e3b0c44298fc''\<rparr>"
    by (simp add: mirror_request_def)
  have r2: "fst (Unhashed memOpen mirror (TrimPrefix (URL_Path mirror_request) ''/'') start)
     = (''a/empty'', None)"
    by (simp add: a)
  have r3: "fst (Unhashed memOpen mirror (TrimPrefix (URL_RawPath mirror_request) ''/'') start)
     = (''a%2Fempty'', None)"
    unfolding q by (rule Unhashed_mirror_RawPath_start)
  show ?thesis
    by (intro conjI r1 r2 r3)
qed

text \<open>
  Claim C5, the short circuit. The handler calls \<^verbatim>\<open>Unhashed\<close> on the path of the request
  without one leading \<^verbatim>\<open>/\<close>. When that call returns an error, the handler writes the
  status 400 with the message of the error (and a newline) as the body, and does not
  call the file server.
\<close>

theorem decode_failure_bad_request:
  assumes "Unhashed fsOpen fs (TrimPrefix (URL_Path r) ''/'') w = ((name, Some err), w1)"
  shows "FileServer fsOpen quote fs r w = (Wrote 400 (Error quote err @ [CHR 0x0A]), w1)
         \<and> (\<forall>r'. fst (FileServer fsOpen quote fs r w) \<noteq> ServeHTTP r')
         \<and> (\<forall>s. TrimPrefix (CHR ''/'' # s) ''/'' = s)"
  using assms by (simp add: FileServer_def http_Error_def StatusBadRequest_def TrimPrefix_def)

theorem decode_failure_bad_request_witness:
  "Unhashed memOpen site (TrimPrefix ''/assets/main.000000000000.js'' ''/'') start
     = (([], Some (PathMismatch ''assets/main.000000000000.js'')), site_main)
   \<and> FileServer memOpen Quote_plain site
         \<lparr>URL_Path = ''/assets/main.000000000000.js'', URL_RawPath = []\<rparr> start
     = (Wrote 400 (''hashfs: path mismatch for '' @ [CHR 0x22] @ ''assets/main.000000000000.js''
                    @ [CHR 0x22, CHR 0x0A]), site_main)"
proof -
  have h: "Unhashed memOpen site
             (TrimPrefix (URL_Path \<lparr>URL_Path = ''/assets/main.000000000000.js'',
                                    URL_RawPath = []\<rparr>) ''/'')
             start
           = (([], Some (PathMismatch ''assets/main.000000000000.js'')), site_main)"
    by (simp add: TrimPrefix_def Unhashed_def unhashedName_zero MaybePath_main_js)
  show ?thesis
    using decode_failure_bad_request [OF h, of Quote_plain] h
    by (simp add: Quote_plain_def)
qed

text \<open>
  Claim C6, files without extension. In a state the process reaches, for an empty file
  whose name has no extension, \<^verbatim>\<open>MaybePath\<close> returns the name followed by
  \<^verbatim>\<open>.e3b0c44298fc\<close>, the first 6 bytes of SHA-256 of no bytes, and \<^verbatim>\<open>Unhashed\<close> of that
  path returns the name. \<^verbatim>\<open>Unhashed\<close> gets there by its rule for such names: the
  extension of the path is the hash, and what is left has no extension.
\<close>

theorem extensionless_empty_file:
  assumes "reachable fsOpen w" and "Ext name = []" and "fsOpen fs name = Inr (Bytes [])"
  shows "fst (MaybePath fsOpen fs name w) = (name @ ''.e3b0c44298fc'', None)
         \<and> hex (take 6 (sha256 [])) = ''e3b0c44298fc''
         \<and> fst (Unhashed fsOpen fs (name @ ''.e3b0c44298fc'') w) = (name, None)
         \<and> Ext (name @ ''.e3b0c44298fc'') = ''.e3b0c44298fc''
         \<and> Ext (take (length (name @ ''.e3b0c44298fc'') - length ''.e3b0c44298fc'')
                  (name @ ''.e3b0c44298fc'')) = []"
proof -
  have ok: "stored_ok fsOpen w"
    by (rule reachable_stored_ok [OF assms(1)])
  have p: "newP name [] = name @ ''.e3b0c44298fc''"
    by (rule newP_empty [OF assms(2)])
  have m: "fst (MaybePath fsOpen fs name w) = (name @ ''.e3b0c44298fc'', None)"
    using MaybePath_Bytes(1) [OF ok assms(3)] by (simp add: p)
  obtain w1 where m': "MaybePath fsOpen fs name w = ((name @ ''.e3b0c44298fc'', None), w1)"
    using m by (cases "MaybePath fsOpen fs name w") auto
  have "unhashedName (name @ ''.e3b0c44298fc'') = name"
    using unhashedName_newP [of name "[]"] by (simp add: p)
  then have u: "fst (Unhashed fsOpen fs (name @ ''.e3b0c44298fc'') w) = (name, None)"
    by (simp add: Unhashed_def m')
  have e: "Ext (name @ ''.e3b0c44298fc'') = ''.e3b0c44298fc''"
    using Ext_append_dot [of "''e3b0c44298fc''" name] by simp
  show ?thesis
    using m u e assms(2) by (simp add: hex_digest_empty)
qed

theorem extensionless_empty_file_witness:
  "reachable memOpen (start :: memfs world) \<and> Ext ''assets/empty'' = []
   \<and> memOpen site ''assets/empty'' = Inr (Bytes [])
   \<and> fst (MaybePath memOpen site ''assets/empty'' start) = (''assets/empty.e3b0c44298fc'', None)
   \<and> fst (Unhashed memOpen site ''assets/empty.e3b0c44298fc'' start) = (''assets/empty'', None)"
proof -
  have h1: "reachable memOpen (start :: memfs world)"
    by (rule reachable_start)
  have h2: "Ext ''assets/empty'' = []"
    by (simp add: Ext_def)
  have h3: "memOpen site ''assets/empty'' = Inr (Bytes [])"
    by (simp add: memOpen_def site_def)
  show ?thesis
    using extensionless_empty_file [where fsOpen = memOpen, OF h1 h2 h3] h1 h2 h3
    by simp
qed

text \<open>
  Claim C7, unknown files. In a state the process reaches, for a file name that does
  not open, \<^verbatim>\<open>MaybePath\<close> returns the empty path and the open error, which wraps the
  error of \<^verbatim>\<open>fs.Open\<close>, and \<^verbatim>\<open>Path\<close> panics with that same error.
\<close>

theorem unknown_file:
  assumes "reachable fsOpen w" and "fsOpen fs filename = Inl cause"
  shows "MaybePath fsOpen fs filename w
           = (([], Some (OpenError cause)), w\<lparr>opened := opened w @ [(fs, filename)]\<rparr>)
         \<and> Unwrap (OpenError cause) = Some cause
         \<and> Path fsOpen fs filename w
           = (Panics (OpenError cause), w\<lparr>opened := opened w @ [(fs, filename)]\<rparr>)"
proof -
  have "cachedHashes w (fs, filename) = None"
    using reachable_stored_ok [OF assms(1)] assms(2)
    by (cases "cachedHashes w (fs, filename)") (fastforce simp: stored_ok_def)+
  then have "MaybePath fsOpen fs filename w
           = (([], Some (OpenError cause)), w\<lparr>opened := opened w @ [(fs, filename)]\<rparr>)"
    using assms(2) by (simp add: MaybePath_def Let_def)
  then show ?thesis
    by (simp add: Path_def)
qed

theorem unknown_file_witness:
  "reachable memOpen (start :: memfs world)
   \<and> memOpen site ''foo'' = Inl ''open foo: file does not exist''
   \<and> MaybePath memOpen site ''foo'' start
       = (([], Some (OpenError ''open foo: file does not exist'')),
          \<lparr>cachedHashes = Map.empty, opened = [(site, ''foo'')]\<rparr>)
   \<and> Path memOpen site ''foo'' start
       = (Panics (OpenError ''open foo: file does not exist''),
          \<lparr>cachedHashes = Map.empty, opened = [(site, ''foo'')]\<rparr>)
   \<and> Error Quote_plain (OpenError ''open foo: file does not exist'')
       = ''hashfs: error opening file: open foo: file does not exist''"
proof -
  have h1: "reachable memOpen (start :: memfs world)"
    by (rule reachable_start)
  have h2: "memOpen site ''foo'' = Inl ''open foo: file does not exist''"
    by (simp add: memOpen_def site_def)
  show ?thesis
    using unknown_file [where fsOpen = memOpen, OF h1 h2] h1 h2
    by (simp add: start_def)
qed

text \<open>
  Claim C8, the memoization invariant. Once the store maps a key to a path, the store
  maps the key to that path after any number of calls of the exported functions, and
  \<^verbatim>\<open>MaybePath\<close> for the key returns that path and no error and leaves the state as it
  is: no file is opened.
\<close>

theorem memoization_invariant:
  assumes "cachedHashes w (fs, filename) = Some p" and "(calls fsOpen)\<^sup>*\<^sup>* w w'"
  shows "cachedHashes w' (fs, filename) = Some p
         \<and> MaybePath fsOpen fs filename w' = ((p, None), w')
         \<and> opened (snd (MaybePath fsOpen fs filename w')) = opened w'"
proof -
  have "cachedHashes w' (fs, filename) = Some p"
    by (rule calls_star_invariant
          [where P = "\<lambda>v. cachedHashes v (fs, filename) = Some p", OF assms(2)])
       (simp_all add: MaybePath_keeps assms(1))
  then show ?thesis
    by (simp add: MaybePath_hit)
qed

theorem memoization_invariant_witness:
  "cachedHashes site_main (site, ''assets/main.js'') = Some ''assets/main.ba7816bf8f01.js''
   \<and> (calls memOpen)\<^sup>*\<^sup>* site_main site_both
   \<and> cachedHashes site_both (site, ''assets/main.js'') = Some ''assets/main.ba7816bf8f01.js''
   \<and> MaybePath memOpen site ''assets/main.js'' site_both
       = ((''assets/main.ba7816bf8f01.js'', None), site_both)"
proof -
  have h1: "cachedHashes site_main (site, ''assets/main.js'')
              = Some ''assets/main.ba7816bf8f01.js''"
    by (simp add: site_main_def)
  have "calls memOpen site_main
          (snd (Unhashed memOpen site ''assets/empty.e3b0c44298fc'' site_main))"
    by (rule call_Unhashed)
  then have h2: "(calls memOpen)\<^sup>*\<^sup>* site_main site_both"
    by (simp add: Unhashed_assets_empty)
  show ?thesis
    using memoization_invariant [OF h1 h2] h1 h2 by simp
qed

text \<open>
  Claim C9, the two forms of encoding. When \<^verbatim>\<open>MaybePath(fs, filename)\<close> returns a path
  and no error, \<^verbatim>\<open>Path(fs, filename)\<close> in the same state returns the same path, and
  leaves the same state.
\<close>

theorem Path_MaybePath:
  assumes "MaybePath fsOpen fs filename w = ((p, None), w1)"
  shows "Path fsOpen fs filename w = (Returns p, w1)"
  using assms by (simp add: Path_def)

theorem Path_MaybePath_witness:
  "MaybePath memOpen site ''assets/main.js'' start
     = ((''assets/main.ba7816bf8f01.js'', None), site_main)
   \<and> Path memOpen site ''assets/main.js'' start
     = (Returns ''assets/main.ba7816bf8f01.js'', site_main)"
  using Path_MaybePath [OF MaybePath_main_js] MaybePath_main_js by simp

text \<open>
  Claim C10, errors leave the store alone. When \<^verbatim>\<open>MaybePath\<close> returns an error, the
  path it returns is empty and the store is the one before the call; the error is that
  of the open step or that of the read step.
\<close>

theorem error_atomicity:
  assumes "MaybePath fsOpen fs filename w = ((p, Some err), w1)"
  shows "p = [] \<and> cachedHashes w1 = cachedHashes w
         \<and> ((\<exists>c. err = OpenError c \<and> fsOpen fs filename = Inl c)
            \<or> (\<exists>c. err = CopyError c \<and> fsOpen fs filename = Inr (BadRead c)))"
  using assms
  by (auto simp: MaybePath_def Let_def split: option.splits sum.splits fs_File.splits)

theorem error_atomicity_witness:
  "MaybePath memOpen site ''foo'' start
     = (([], Some (OpenError ''open foo: file does not exist'')),
        \<lparr>cachedHashes = Map.empty, opened = [(site, ''foo'')]\<rparr>)
   \<and> MaybePath memOpen site ''assets'' site_main
     = (([], Some (CopyError ''read assets: is a directory'')),
        site_main\<lparr>opened := [(site, ''assets/main.js''), (site, ''assets'')]\<rparr>)
   \<and> cachedHashes (site_main\<lparr>opened := [(site, ''assets/main.js''), (site, ''assets'')]\<rparr>)
       = cachedHashes site_main"
proof -
  have h1: "MaybePath memOpen site ''foo'' start
     = (([], Some (OpenError ''open foo: file does not exist'')),
        \<lparr>cachedHashes = Map.empty, opened = [(site, ''foo'')]\<rparr>)"
    by (simp add: MaybePath_def Let_def start_def memOpen_def site_def)
  have h2: "MaybePath memOpen site ''assets'' site_main
     = (([], Some (CopyError ''read assets: is a directory'')),
        site_main\<lparr>opened := [(site, ''assets/main.js''), (site, ''assets'')]\<rparr>)"
    by (simp add: MaybePath_def Let_def site_main_def memOpen_def site_def)
  show ?thesis
    using error_atomicity [OF h1] error_atomicity [OF h2] h1 h2 by simp
qed

end
